theory Spec2Isabelle
  imports Main
begin

section \<open>Values, keyword arguments and components\<close>

text \<open>
  The installers of \<^verbatim>\<open>reflex_clerk.py\<close> receive Python values and hand them on without
  looking inside: the publishable key (a string, or \<^verbatim>\<open>None\<close>, the default) and the values
  of the forwarded options \<^verbatim>\<open>**props\<close>. A value is \<^verbatim>\<open>None\<close>, a string, or any other object,
  of a type \<open>'v\<close> that the installers never inspect.
\<close>

datatype 'v pyval = PyNone | PyStr string | PyObj 'v

text \<open>
  A keyword-argument dictionary keeps the order in which its entries were given, so it is
  an association list from names to values.
\<close>

type_synonym 'v kwargs = "(string \<times> 'v pyval) list"

text \<open>
  The five component constructors the installers call. None of them is defined in
  \<^verbatim>\<open>reflex_clerk.py\<close>: \<^verbatim>\<open>clerk_provider\<close>, \<^verbatim>\<open>sign_in\<close> and \<^verbatim>\<open>sign_up\<close> are imported from
  sibling modules, \<^verbatim>\<open>rx.center\<close> and \<^verbatim>\<open>rx.vstack\<close> from the host framework.
\<close>

datatype callee = ClerkProvider | Center | VStack | SignIn | SignUp

text \<open>
  A component is the record of one constructor call: which constructor was called, the
  components it received as positional arguments (its children), and the keyword
  arguments it received.
\<close>

datatype 'v component = Component callee "'v component list" "'v kwargs"

fun constructor :: "'v component \<Rightarrow> callee" where
  "constructor (Component c cs kw) = c"

fun children :: "'v component \<Rightarrow> 'v component list" where
  "children (Component c cs kw) = cs"

fun kwargs_of :: "'v component \<Rightarrow> 'v kwargs" where
  "kwargs_of (Component c cs kw) = kw"

text \<open>
  Modelled from the spec: the provider wrapper \<^verbatim>\<open>clerk_provider\<close> (module
  \<^verbatim>\<open>clerk_provider\<close>, absent from the sources). The spec calls it an external collaborator
  that establishes the identity-provider context around a subtree of components; here it
  returns the record of its call.
\<close>

definition clerk_provider :: "'v component list \<Rightarrow> 'v kwargs \<Rightarrow> 'v component" where
  "clerk_provider cs kw = Component ClerkProvider cs kw"

text \<open>
  Modelled from the spec: the sign-in form \<^verbatim>\<open>sign_in\<close> (module \<^verbatim>\<open>sign_in\<close>, absent from
  the sources), a pre-built widget of the identity provider; it returns the record of its
  call.
\<close>

definition sign_in :: "'v kwargs \<Rightarrow> 'v component" where
  "sign_in kw = Component SignIn [] kw"

text \<open>
  Modelled from the spec: the sign-up form \<^verbatim>\<open>sign_up\<close> (module \<^verbatim>\<open>sign_up\<close>, absent from
  the sources), a pre-built widget of the identity provider; it returns the record of its
  call.
\<close>

definition sign_up :: "'v kwargs \<Rightarrow> 'v component" where
  "sign_up kw = Component SignUp [] kw"

text \<open>
  Modelled from the spec: the host framework's centering container \<^verbatim>\<open>rx.center\<close> and
  vertical stack \<^verbatim>\<open>rx.vstack\<close>; each returns the record of its call.
\<close>

definition rx_center :: "'v component list \<Rightarrow> 'v kwargs \<Rightarrow> 'v component" where
  "rx_center cs kw = Component Center cs kw"

definition rx_vstack :: "'v component list \<Rightarrow> 'v kwargs \<Rightarrow> 'v component" where
  "rx_vstack cs kw = Component VStack cs kw"

section \<open>Errors and the call with forwarded keywords\<close>

text \<open>
  Two exceptions can leave the installers: the \<^verbatim>\<open>AssertionError\<close> of the route check, with
  its message, and the \<^verbatim>\<open>TypeError\<close> that Python raises when a call written
  \<^verbatim>\<open>f(name=value, **props)\<close> finds \<^verbatim>\<open>name\<close> among the keys of \<^verbatim>\<open>props\<close> (``got multiple
  values for keyword argument'').
\<close>

datatype error = AssertionError string | TypeError

definition keys :: "'v kwargs \<Rightarrow> string set" where
  "keys props = fst ` set props"

text \<open>
  \<^verbatim>\<open>f(k1=v1, ..., **props)\<close>: the keyword arguments that \<^verbatim>\<open>f\<close> receives are the explicit
  ones followed by those of \<^verbatim>\<open>props\<close>, unless a key of \<^verbatim>\<open>props\<close> repeats an explicit name.
\<close>

definition forward :: "'v kwargs \<Rightarrow> 'v kwargs \<Rightarrow> error + 'v kwargs" where
  "forward explicit props =
     (if \<exists>k \<in> set (map fst props). k \<in> set (map fst explicit) then Inl TypeError
      else Inr (explicit @ props))"

section \<open>The application and the installers\<close>

text \<open>
  The application handle \<^verbatim>\<open>rx.App\<close>: the installers touch its route table \<^verbatim>\<open>app.pages\<close>, a
  dictionary from route keys to components, and nothing else of it (the rest of the
  handle is the record's extension).
\<close>

record 'v app =
  pages :: "string \<rightharpoonup> 'v component"

text \<open>\<^verbatim>\<open>s.startswith(p)\<close> and the slice \<^verbatim>\<open>s[1:]\<close>.\<close>

definition startswith :: "string \<Rightarrow> string \<Rightarrow> bool" where
  "startswith s p = (take (length p) s = p)"

definition slice_from_1 :: "string \<Rightarrow> string" where
  "slice_from_1 s = drop 1 s"

definition route_message :: string where
  "route_message = ''Expected route to be absolute (e.g. starts with '' @ [CHR 39] @ ''/'' @ [CHR 39] @ '')''"

text \<open>
  An installer returns nothing and mutates the application in place, so its model returns
  the exception it raised, if any, together with the application as the call left it.

  \<^verbatim>\<open>install_signin_page(app, publishable_key=None, route="/signin", **props)\<close>: the
  assertion first; then the page is built from the inside out, the call
  \<^verbatim>\<open>sign_in(path=route, **props)\<close> first; then the page is stored in \<^verbatim>\<open>app.pages\<close>.
\<close>

definition install_signin_page ::
  "('v, 'z) app_scheme \<Rightarrow> 'v pyval \<Rightarrow> string \<Rightarrow> 'v kwargs \<Rightarrow> error option \<times> ('v, 'z) app_scheme" where
  "install_signin_page app publishable_key route props =
     (if \<not> startswith route ''/'' then (Some (AssertionError route_message), app)
      else case forward [(''path'', PyStr route)] props of
        Inl e \<Rightarrow> (Some e, app)
      | Inr kw \<Rightarrow>
          let signin_page =
                clerk_provider
                  [rx_center
                     [rx_vstack [sign_in kw]
                        [(''align'', PyStr ''center''), (''spacing'', PyStr ''7'')]]
                     [(''height'', PyStr ''100vh'')]]
                  [(''publishable_key'', publishable_key)]
          in (None, app\<lparr>pages := (pages app)(slice_from_1 route @ ''/[[...signin]]/index'' \<mapsto> signin_page)\<rparr>))"

definition install_signup_page ::
  "('v, 'z) app_scheme \<Rightarrow> 'v pyval \<Rightarrow> string \<Rightarrow> 'v kwargs \<Rightarrow> error option \<times> ('v, 'z) app_scheme" where
  "install_signup_page app publishable_key route props =
     (if \<not> startswith route ''/'' then (Some (AssertionError route_message), app)
      else case forward [(''path'', PyStr route)] props of
        Inl e \<Rightarrow> (Some e, app)
      | Inr kw \<Rightarrow>
          let signup_page =
                clerk_provider
                  [rx_center
                     [rx_vstack [sign_up kw]
                        [(''align'', PyStr ''center''), (''spacing'', PyStr ''7'')]]
                     [(''height'', PyStr ''100vh'')]]
                  [(''publishable_key'', publishable_key)]
          in (None, app\<lparr>pages := (pages app)(slice_from_1 route @ ''/[[...signup]]/index'' \<mapsto> signup_page)\<rparr>))"

text \<open>
  \<^verbatim>\<open>install_pages(app, publishable_key=None, signin_route="/signin",
  signup_route="/signup", **props)\<close>: two calls in sequence, each written
  \<^verbatim>\<open>install_..._page(app, publishable_key=publishable_key, route=..., **props)\<close>, so each
  raises \<^verbatim>\<open>TypeError\<close> before the installer runs when \<^verbatim>\<open>props\<close> holds a key
  \<^verbatim>\<open>publishable_key\<close> or \<^verbatim>\<open>route\<close>. An exception of the first call ends \<^verbatim>\<open>install_pages\<close>;
  the second call works on the application as the first one left it.
\<close>

definition install_pages ::
  "('v, 'z) app_scheme \<Rightarrow> 'v pyval \<Rightarrow> string \<Rightarrow> string \<Rightarrow> 'v kwargs \<Rightarrow> error option \<times> ('v, 'z) app_scheme" where
  "install_pages app publishable_key signin_route signup_route props =
     (case forward [(''publishable_key'', publishable_key), (''route'', PyStr signin_route)] props of
        Inl e \<Rightarrow> (Some e, app)
      | Inr _ \<Rightarrow>
          (case install_signin_page app publishable_key signin_route props of
             (Some e, app1) \<Rightarrow> (Some e, app1)
           | (None, app1) \<Rightarrow>
               (case forward [(''publishable_key'', publishable_key), (''route'', PyStr signup_route)] props of
                  Inl e \<Rightarrow> (Some e, app1)
                | Inr _ \<Rightarrow> install_signup_page app1 publishable_key signup_route props)))"

text \<open>The defaults of the parameters, and a fresh application, whose route table is empty.\<close>

definition default_signin_route :: string where
  "default_signin_route = ''/signin''"

definition default_signup_route :: string where
  "default_signup_route = ''/signup''"

definition fresh_app :: "'v app" where
  "fresh_app = \<lparr>pages = Map.empty\<rparr>"

section \<open>Observing a page\<close>

text \<open>
  The value stored under a keyword, and the single positional argument of a component
  (none when it has no child or several).
\<close>

definition kwarg :: "'v component \<Rightarrow> string \<Rightarrow> 'v pyval option" where
  "kwarg c name = map_of (kwargs_of c) name"

definition only_child :: "'v component \<Rightarrow> 'v component option" where
  "only_child c = (case children c of [x] \<Rightarrow> Some x | _ \<Rightarrow> None)"

text \<open>The form of a page: the only child of the only child of the only child of its root.\<close>

definition form_of :: "'v component \<Rightarrow> 'v component option" where
  "form_of page = Option.bind (Option.bind (only_child page) only_child) only_child"

section \<open>Helper facts\<close>

lemma startswith_slash: "startswith route ''/'' \<longleftrightarrow> (\<exists>r. route = CHR ''/'' # r)"
  by (cases route) (auto simp: startswith_def)

lemma forward_ok: "keys props \<inter> keys explicit = {} \<Longrightarrow> forward explicit props = Inr (explicit @ props)"
  by (auto simp: forward_def keys_def)

lemma forward_clash: "keys props \<inter> keys explicit \<noteq> {} \<Longrightarrow> forward explicit props = Inl TypeError"
  by (auto simp: forward_def keys_def)

lemma forward_path_ok:
  "''path'' \<notin> keys props \<Longrightarrow> forward [(''path'', v)] props = Inr ((''path'', v) # props)"
  by (simp add: forward_ok keys_def)

lemma forward_path_clash:
  "''path'' \<in> keys props \<Longrightarrow> forward [(''path'', v)] props = Inl TypeError"
  by (rule forward_clash) (auto simp: keys_def)

lemma forward_route_ok:
  "''publishable_key'' \<notin> keys props \<Longrightarrow> ''route'' \<notin> keys props \<Longrightarrow>
   forward [(''publishable_key'', k), (''route'', v)] props
     = Inr ([(''publishable_key'', k), (''route'', v)] @ props)"
  by (rule forward_ok) (auto simp: keys_def)

lemma forward_route_clash:
  "''route'' \<in> keys props \<Longrightarrow>
   forward [(''publishable_key'', k), (''route'', v)] props = Inl TypeError"
  by (rule forward_clash) (auto simp: keys_def)

lemma signin_reject:
  "\<not> startswith route ''/'' \<Longrightarrow>
   install_signin_page app k route props = (Some (AssertionError route_message), app)"
  by (simp add: install_signin_page_def)

lemma signup_reject:
  "\<not> startswith route ''/'' \<Longrightarrow>
   install_signup_page app k route props = (Some (AssertionError route_message), app)"
  by (simp add: install_signup_page_def)

lemma signin_clash:
  "startswith route ''/'' \<Longrightarrow> ''path'' \<in> keys props \<Longrightarrow>
   install_signin_page app k route props = (Some TypeError, app)"
  by (simp add: install_signin_page_def forward_path_clash)

lemma signup_clash:
  "startswith route ''/'' \<Longrightarrow> ''path'' \<in> keys props \<Longrightarrow>
   install_signup_page app k route props = (Some TypeError, app)"
  by (simp add: install_signup_page_def forward_path_clash)

lemma signin_ok:
  "startswith route ''/'' \<Longrightarrow> ''path'' \<notin> keys props \<Longrightarrow>
   install_signin_page app k route props =
     (None, app\<lparr>pages := (pages app)(drop 1 route @ ''/[[...signin]]/index'' \<mapsto>
        Component ClerkProvider
          [Component Center
             [Component VStack [Component SignIn [] ((''path'', PyStr route) # props)]
                [(''align'', PyStr ''center''), (''spacing'', PyStr ''7'')]]
             [(''height'', PyStr ''100vh'')]]
          [(''publishable_key'', k)])\<rparr>)"
  by (simp add: install_signin_page_def forward_path_ok slice_from_1_def
      clerk_provider_def rx_center_def rx_vstack_def sign_in_def)

lemma signup_ok:
  "startswith route ''/'' \<Longrightarrow> ''path'' \<notin> keys props \<Longrightarrow>
   install_signup_page app k route props =
     (None, app\<lparr>pages := (pages app)(drop 1 route @ ''/[[...signup]]/index'' \<mapsto>
        Component ClerkProvider
          [Component Center
             [Component VStack [Component SignUp [] ((''path'', PyStr route) # props)]
                [(''align'', PyStr ''center''), (''spacing'', PyStr ''7'')]]
             [(''height'', PyStr ''100vh'')]]
          [(''publishable_key'', k)])\<rparr>)"
  by (simp add: install_signup_page_def forward_path_ok slice_from_1_def
      clerk_provider_def rx_center_def rx_vstack_def sign_up_def)

lemma install_pages_seq:
  "''publishable_key'' \<notin> keys props \<Longrightarrow> ''route'' \<notin> keys props \<Longrightarrow>
   install_pages app k r1 r2 props =
     (case install_signin_page app k r1 props of
        (Some e, app1) \<Rightarrow> (Some e, app1)
      | (None, app1) \<Rightarrow> install_signup_page app1 k r2 props)"
  by (simp add: install_pages_def forward_route_ok split: prod.splits option.splits)

lemma install_pages_clash:
  "''route'' \<in> keys props \<Longrightarrow> install_pages app k r1 r2 props = (Some TypeError, app)"
  by (simp add: install_pages_def forward_route_clash)

lemma same_length_suffix:
  "length s = length t \<Longrightarrow> a @ s = b @ t \<longleftrightarrow> a = b \<and> s = t"
  by simp

lemma signin_signup_keys_differ:
  "a @ ''/[[...signin]]/index'' \<noteq> b @ ''/[[...signup]]/index''"
  by (simp add: same_length_suffix)

section \<open>The claims\<close>

text \<open>
  The model is that of the interpreter's default mode, in which \<^verbatim>\<open>assert\<close> statements run.
  A route is a string, as the installers' parameter is documented; the applications,
  credentials and options below are arbitrary.
\<close>

text \<open>
  C1 (amended). A route that does not start with \<^verbatim>\<open>/\<close> makes each single-page installer
  raise the assertion error and leave the application as it was, whatever the credential
  and the forwarded options. \<^verbatim>\<open>install_pages\<close> does the same when its sign-in route is such a
  route and no forwarded option is named \<^verbatim>\<open>publishable_key\<close> or \<^verbatim>\<open>route\<close>. When such a
  route is the sign-up route of \<^verbatim>\<open>install_pages\<close>, the sign-in route starts with \<^verbatim>\<open>/\<close> and no
  forwarded option is named \<^verbatim>\<open>publishable_key\<close>, \<^verbatim>\<open>route\<close> or \<^verbatim>\<open>path\<close>, \<^verbatim>\<open>install_pages\<close>
  raises the assertion error and leaves the application with the sign-in page stored
  under its key and nothing else changed.
\<close>

theorem C1_nonabsolute_route_rejected:
  "\<not> startswith route ''/'' \<longrightarrow>
     install_signin_page app k route props = (Some (AssertionError route_message), app)
   \<and> install_signup_page app k route props = (Some (AssertionError route_message), app)
   \<and> (''publishable_key'' \<notin> keys props \<and> ''route'' \<notin> keys props \<longrightarrow>
        install_pages app k route signup_route props = (Some (AssertionError route_message), app))
   \<and> (startswith signin_route ''/'' \<and> ''publishable_key'' \<notin> keys props
        \<and> ''route'' \<notin> keys props \<and> ''path'' \<notin> keys props \<longrightarrow>
        install_pages app k signin_route route props =
          (Some (AssertionError route_message),
           app\<lparr>pages := (pages app)(drop 1 signin_route @ ''/[[...signin]]/index'' \<mapsto>
             Component ClerkProvider
               [Component Center
                  [Component VStack
                     [Component SignIn [] ((''path'', PyStr signin_route) # props)]
                     [(''align'', PyStr ''center''), (''spacing'', PyStr ''7'')]]
                  [(''height'', PyStr ''100vh'')]]
               [(''publishable_key'', k)])\<rparr>))"
  by (simp add: signin_reject signup_reject install_pages_seq signin_ok)

theorem C1_nonabsolute_route_rejected_witness:
  "\<not> startswith ''signin'' ''/''
   \<and> ''publishable_key'' \<notin> keys [(''appearance'', PyObj (0::nat))]
   \<and> ''route'' \<notin> keys [(''appearance'', PyObj (0::nat))]
   \<and> ''path'' \<notin> keys [(''appearance'', PyObj (0::nat))]
   \<and> startswith ''/login'' ''/''
   \<and> install_signin_page (fresh_app :: nat app) PyNone ''signin'' [(''appearance'', PyObj 0)]
        = (Some (AssertionError route_message), fresh_app)
   \<and> install_signup_page (fresh_app :: nat app) PyNone ''signin'' [(''appearance'', PyObj 0)]
        = (Some (AssertionError route_message), fresh_app)
   \<and> install_pages (fresh_app :: nat app) PyNone ''signin'' ''/signup'' [(''appearance'', PyObj 0)]
        = (Some (AssertionError route_message), fresh_app)
   \<and> install_pages (fresh_app :: nat app) PyNone ''/login'' ''signin'' [(''appearance'', PyObj 0)]
        = (Some (AssertionError route_message),
           fresh_app\<lparr>pages := (pages fresh_app)(''login/[[...signin]]/index'' \<mapsto>
             Component ClerkProvider
               [Component Center
                  [Component VStack
                     [Component SignIn [] [(''path'', PyStr ''/login''), (''appearance'', PyObj 0)]]
                     [(''align'', PyStr ''center''), (''spacing'', PyStr ''7'')]]
                  [(''height'', PyStr ''100vh'')]]
               [(''publishable_key'', PyNone)])\<rparr>)"
  using C1_nonabsolute_route_rejected
    [of "''signin''" "fresh_app :: nat app" PyNone "[(''appearance'', PyObj 0)]" "''/signup''" "''/login''"]
  by (simp add: startswith_def keys_def)

text \<open>
  C1 as stated fails for \<^verbatim>\<open>install_pages\<close>: with the sign-in route \<^verbatim>\<open>/signin\<close> and the
  sign-up route \<^verbatim>\<open>signup\<close>, which does not start with \<^verbatim>\<open>/\<close>, the assertion error is raised
  and the route table of a fresh application has gained the sign-in entry.
\<close>

theorem C1_install_pages_mutates_counterexample:
  "\<not> startswith ''signup'' ''/''
   \<and> fst (install_pages (fresh_app :: unit app) PyNone ''/signin'' ''signup'' [])
        = Some (AssertionError route_message)
   \<and> pages (snd (install_pages (fresh_app :: unit app) PyNone ''/signin'' ''signup'' []))
        ''signin/[[...signin]]/index'' \<noteq> None
   \<and> pages (fresh_app :: unit app) ''signin/[[...signin]]/index'' = None"
  by (simp add: install_pages_def install_signin_page_def install_signup_page_def forward_def
      startswith_def slice_from_1_def fresh_app_def)



text \<open>
  C3. On an application whose route table is empty, \<^verbatim>\<open>install_pages\<close> with the default
  routes returns normally and leaves exactly two entries, under
  \<^verbatim>\<open>signin/[[...signin]]/index\<close> and \<^verbatim>\<open>signup/[[...signup]]/index\<close>. The forwarded options are
  any without a key \<^verbatim>\<open>publishable_key\<close>, \<^verbatim>\<open>route\<close> or \<^verbatim>\<open>path\<close>, the default (no option) among
  them.
\<close>

theorem C3_defaults_two_entries:
  "pages app = Map.empty \<and> ''publishable_key'' \<notin> keys props \<and> ''route'' \<notin> keys props
     \<and> ''path'' \<notin> keys props \<longrightarrow>
     fst (install_pages app k default_signin_route default_signup_route props) = None
   \<and> dom (pages (snd (install_pages app k default_signin_route default_signup_route props)))
        = {''signin/[[...signin]]/index'', ''signup/[[...signup]]/index''}
   \<and> card (dom (pages (snd (install_pages app k default_signin_route default_signup_route props)))) = 2"
proof (intro impI, elim conjE)
  assume e: "pages app = Map.empty" and p: "''publishable_key'' \<notin> keys props"
    "''route'' \<notin> keys props" "''path'' \<notin> keys props"
  have s1: "startswith default_signin_route ''/''" and s2: "startswith default_signup_route ''/''"
    by (simp_all add: startswith_def default_signin_route_def default_signup_route_def)
  let ?r = "install_pages app k default_signin_route default_signup_route props"
  have err: "fst ?r = None"
    by (simp add: install_pages_seq p signin_ok signup_ok s1 s2)
  have d: "dom (pages (snd ?r)) = {''signin/[[...signin]]/index'', ''signup/[[...signup]]/index''}"
    by (simp add: install_pages_seq p signin_ok signup_ok s1 s2 e)
       (auto simp: default_signin_route_def default_signup_route_def)
  have "card {''signin/[[...signin]]/index'', ''signup/[[...signup]]/index''} = 2"
    by simp
  with err d show "fst ?r = None \<and> dom (pages (snd ?r)) = {''signin/[[...signin]]/index'', ''signup/[[...signup]]/index''}
     \<and> card (dom (pages (snd ?r))) = 2"
    by simp
qed

theorem C3_defaults_two_entries_witness:
  "pages (fresh_app :: unit app) = Map.empty
   \<and> ''publishable_key'' \<notin> keys ([] :: unit kwargs) \<and> ''route'' \<notin> keys ([] :: unit kwargs)
   \<and> ''path'' \<notin> keys ([] :: unit kwargs)
   \<and> fst (install_pages (fresh_app :: unit app) PyNone ''/signin'' ''/signup'' []) = None
   \<and> dom (pages (snd (install_pages (fresh_app :: unit app) PyNone ''/signin'' ''/signup'' [])))
        = {''signin/[[...signin]]/index'', ''signup/[[...signup]]/index''}"
  using C3_defaults_two_entries [of "fresh_app :: unit app" "[]" PyNone]
  by (simp add: keys_def fresh_app_def default_signin_route_def default_signup_route_def)

text \<open>
  C4. \<^verbatim>\<open>install_pages\<close> is the sign-in installer followed by the sign-up installer, on the
  same credential and the same forwarded options, the second running on the application
  as the first left it and only when the first raised nothing. When the sign-in route
  starts with \<^verbatim>\<open>/\<close> and the sign-up route does not, \<^verbatim>\<open>install_pages\<close> raises the
  assertion error and the application is the one the sign-in installer left: its sign-in
  entry is installed. The forwarded options are any that the two calls can forward (no
  key \<^verbatim>\<open>publishable_key\<close> or \<^verbatim>\<open>route\<close>; for the second part, no key \<^verbatim>\<open>path\<close>).
\<close>

theorem C4_sequence_and_partial_installation:
  "''publishable_key'' \<notin> keys props \<and> ''route'' \<notin> keys props \<longrightarrow>
     install_pages app k r1 r2 props =
       (case install_signin_page app k r1 props of
          (Some e, app1) \<Rightarrow> (Some e, app1)
        | (None, app1) \<Rightarrow> install_signup_page app1 k r2 props)
   \<and> (startswith r1 ''/'' \<and> \<not> startswith r2 ''/'' \<and> ''path'' \<notin> keys props \<longrightarrow>
        install_pages app k r1 r2 props
          = (Some (AssertionError route_message), snd (install_signin_page app k r1 props))
      \<and> fst (install_signin_page app k r1 props) = None
      \<and> pages (snd (install_pages app k r1 r2 props)) (drop 1 r1 @ ''/[[...signin]]/index'')
          = pages (snd (install_signin_page app k r1 props)) (drop 1 r1 @ ''/[[...signin]]/index'')
      \<and> pages (snd (install_pages app k r1 r2 props)) (drop 1 r1 @ ''/[[...signin]]/index'') \<noteq> None)"
  by (simp add: install_pages_seq signin_ok signup_reject)

theorem C4_sequence_and_partial_installation_witness:
  "''publishable_key'' \<notin> keys ([] :: unit kwargs) \<and> ''route'' \<notin> keys ([] :: unit kwargs)
   \<and> startswith ''/signin'' ''/'' \<and> \<not> startswith ''signup'' ''/'' \<and> ''path'' \<notin> keys ([] :: unit kwargs)
   \<and> fst (install_pages (fresh_app :: unit app) PyNone ''/signin'' ''signup'' [])
        = Some (AssertionError route_message)
   \<and> pages (snd (install_pages (fresh_app :: unit app) PyNone ''/signin'' ''signup'' []))
        ''signin/[[...signin]]/index'' \<noteq> None"
proof -
  have h: "''publishable_key'' \<notin> keys ([] :: unit kwargs) \<and> ''route'' \<notin> keys ([] :: unit kwargs)"
    by (simp add: keys_def)
  have g: "startswith ''/signin'' ''/'' \<and> \<not> startswith ''signup'' ''/'' \<and> ''path'' \<notin> keys ([] :: unit kwargs)"
    by (simp add: keys_def startswith_def)
  from h g C4_sequence_and_partial_installation
    [of "[] :: unit kwargs" "fresh_app :: unit app" PyNone "''/signin''" "''signup''"]
  have "install_pages (fresh_app :: unit app) PyNone ''/signin'' ''signup'' []
          = (Some (AssertionError route_message), snd (install_signin_page fresh_app PyNone ''/signin'' []))"
    and "pages (snd (install_pages (fresh_app :: unit app) PyNone ''/signin'' ''signup'' []))
          (drop 1 ''/signin'' @ ''/[[...signin]]/index'') \<noteq> None"
    by blast+
  with h g show ?thesis by simp
qed

text \<open>
  C5 (amended). For a route that starts with \<^verbatim>\<open>/\<close>, any credential and any forwarded
  options none of which is named \<^verbatim>\<open>path\<close>, the page that each single-page installer stores
  has a form (\<^verbatim>\<open>sign_in\<close>, \<^verbatim>\<open>sign_up\<close>) whose keyword arguments are \<^verbatim>\<open>path\<close>, holding the
  route, followed by the forwarded options as they were given, and a provider wrapper
  whose \<^verbatim>\<open>publishable_key\<close> is the credential as it was given.
\<close>

theorem C5_arguments_passed_unchanged:
  "startswith route ''/'' \<and> ''path'' \<notin> keys props \<longrightarrow>
     (\<exists>page form.
        pages (snd (install_signin_page app k route props)) (drop 1 route @ ''/[[...signin]]/index'')
          = Some page
      \<and> form_of page = Some form \<and> constructor form = SignIn
      \<and> kwargs_of form = (''path'', PyStr route) # props
      \<and> constructor page = ClerkProvider \<and> kwarg page ''publishable_key'' = Some k)
   \<and> (\<exists>page form.
        pages (snd (install_signup_page app k route props)) (drop 1 route @ ''/[[...signup]]/index'')
          = Some page
      \<and> form_of page = Some form \<and> constructor form = SignUp
      \<and> kwargs_of form = (''path'', PyStr route) # props
      \<and> constructor page = ClerkProvider \<and> kwarg page ''publishable_key'' = Some k)"
  by (simp add: signin_ok signup_ok form_of_def only_child_def kwarg_def)

theorem C5_arguments_passed_unchanged_witness:
  "startswith ''/signin'' ''/'' \<and> ''path'' \<notin> keys [(''appearance'', PyObj (3::nat))]
   \<and> (\<exists>page form.
        pages (snd (install_signin_page (fresh_app :: nat app) (PyStr ''pk_test'') ''/signin''
                 [(''appearance'', PyObj 3)])) ''signin/[[...signin]]/index'' = Some page
      \<and> form_of page = Some form
      \<and> kwargs_of form = [(''path'', PyStr ''/signin''), (''appearance'', PyObj 3)]
      \<and> kwarg page ''publishable_key'' = Some (PyStr ''pk_test''))"
  using C5_arguments_passed_unchanged
    [of "''/signin''" "[(''appearance'', PyObj (3::nat))]" "fresh_app :: nat app" "PyStr ''pk_test''"]
  by (auto simp add: startswith_def keys_def)

text \<open>
  C5 as stated fails for forwarded options that hold a key \<^verbatim>\<open>path\<close>: the call
  \<^verbatim>\<open>sign_in(path=route, **props)\<close> then raises \<^verbatim>\<open>TypeError\<close>, no form is constructed and
  the route table stays empty.
\<close>

theorem C5_path_option_counterexample:
  "startswith ''/signin'' ''/''
   \<and> install_signin_page (fresh_app :: unit app) (PyStr ''pk_test'') ''/signin''
        [(''path'', PyStr ''/other'')] = (Some TypeError, fresh_app)
   \<and> install_signup_page (fresh_app :: unit app) (PyStr ''pk_test'') ''/signin''
        [(''path'', PyStr ''/other'')] = (Some TypeError, fresh_app)
   \<and> pages (fresh_app :: unit app) = Map.empty"
  by (simp add: install_signin_page_def install_signup_page_def forward_def startswith_def
      fresh_app_def)

text \<open>
  C6. For a route \<open>R\<close> that starts with \<^verbatim>\<open>/\<close> and any application, take a call of an
  installer and then a second call of the same installer with the same route. The first
  call returns normally and stores its page under the derived key. The second call
  returns normally too, and the entry under the derived key is then the page of the
  second call: the entry of the first call is replaced, every other key holds what it
  held before the two calls, and the route table has the same keys as after the first
  call. What the two calls leave is exactly what the second call
  alone leaves on the original application. The two calls may differ in credential and
  options; the claim is the case where they do not. The forwarded options are any
  without a key \<^verbatim>\<open>path\<close>, the default (no option) among them.
\<close>

theorem C6_second_call_overwrites:
  "startswith R ''/'' \<and> ''path'' \<notin> keys props0 \<and> ''path'' \<notin> keys props \<longrightarrow>
     fst (install_signin_page app k0 R props0) = None
   \<and> pages (snd (install_signin_page app k0 R props0)) (drop 1 R @ ''/[[...signin]]/index'')
        = Some (Component ClerkProvider
                  [Component Center
                     [Component VStack [Component SignIn [] ((''path'', PyStr R) # props0)]
                        [(''align'', PyStr ''center''), (''spacing'', PyStr ''7'')]]
                     [(''height'', PyStr ''100vh'')]]
                  [(''publishable_key'', k0)])
   \<and> fst (install_signin_page (snd (install_signin_page app k0 R props0)) k R props) = None
   \<and> pages (snd (install_signin_page (snd (install_signin_page app k0 R props0)) k R props))
        (drop 1 R @ ''/[[...signin]]/index'')
        = Some (Component ClerkProvider
                  [Component Center
                     [Component VStack [Component SignIn [] ((''path'', PyStr R) # props)]
                        [(''align'', PyStr ''center''), (''spacing'', PyStr ''7'')]]
                     [(''height'', PyStr ''100vh'')]]
                  [(''publishable_key'', k)])
   \<and> pages (snd (install_signin_page (snd (install_signin_page app k0 R props0)) k R props))
        = (pages app)(drop 1 R @ ''/[[...signin]]/index'' \<mapsto>
            Component ClerkProvider
              [Component Center
                 [Component VStack [Component SignIn [] ((''path'', PyStr R) # props)]
                    [(''align'', PyStr ''center''), (''spacing'', PyStr ''7'')]]
                 [(''height'', PyStr ''100vh'')]]
              [(''publishable_key'', k)])
   \<and> fst (install_signin_page app k R props) = None
   \<and> install_signin_page (snd (install_signin_page app k0 R props0)) k R props
        = install_signin_page app k R props
   \<and> dom (pages (snd (install_signin_page (snd (install_signin_page app k0 R props0)) k R props)))
        = dom (pages (snd (install_signin_page app k0 R props0)))
   \<and> fst (install_signup_page app k0 R props0) = None
   \<and> pages (snd (install_signup_page app k0 R props0)) (drop 1 R @ ''/[[...signup]]/index'')
        = Some (Component ClerkProvider
                  [Component Center
                     [Component VStack [Component SignUp [] ((''path'', PyStr R) # props0)]
                        [(''align'', PyStr ''center''), (''spacing'', PyStr ''7'')]]
                     [(''height'', PyStr ''100vh'')]]
                  [(''publishable_key'', k0)])
   \<and> fst (install_signup_page (snd (install_signup_page app k0 R props0)) k R props) = None
   \<and> pages (snd (install_signup_page (snd (install_signup_page app k0 R props0)) k R props))
        (drop 1 R @ ''/[[...signup]]/index'')
        = Some (Component ClerkProvider
                  [Component Center
                     [Component VStack [Component SignUp [] ((''path'', PyStr R) # props)]
                        [(''align'', PyStr ''center''), (''spacing'', PyStr ''7'')]]
                     [(''height'', PyStr ''100vh'')]]
                  [(''publishable_key'', k)])
   \<and> pages (snd (install_signup_page (snd (install_signup_page app k0 R props0)) k R props))
        = (pages app)(drop 1 R @ ''/[[...signup]]/index'' \<mapsto>
            Component ClerkProvider
              [Component Center
                 [Component VStack [Component SignUp [] ((''path'', PyStr R) # props)]
                    [(''align'', PyStr ''center''), (''spacing'', PyStr ''7'')]]
                 [(''height'', PyStr ''100vh'')]]
              [(''publishable_key'', k)])
   \<and> fst (install_signup_page app k R props) = None
   \<and> install_signup_page (snd (install_signup_page app k0 R props0)) k R props
        = install_signup_page app k R props
   \<and> dom (pages (snd (install_signup_page (snd (install_signup_page app k0 R props0)) k R props)))
        = dom (pages (snd (install_signup_page app k0 R props0)))"
  by (simp add: signin_ok signup_ok)

theorem C6_second_call_overwrites_witness:
  "startswith ''/signin'' ''/''
   \<and> ''path'' \<notin> keys [(''appearance'', PyObj (1::nat))]
   \<and> ''path'' \<notin> keys [(''appearance'', PyObj (2::nat))]
   \<and> pages (snd (install_signin_page
              \<lparr>pages = [''index'' \<mapsto> Component Center [] []]\<rparr>
              (PyStr ''pk_old'') ''/signin'' [(''appearance'', PyObj (1::nat))]))
         ''signin/[[...signin]]/index''
        = Some (Component ClerkProvider
                  [Component Center
                     [Component VStack
                        [Component SignIn [] [(''path'', PyStr ''/signin''), (''appearance'', PyObj 1)]]
                        [(''align'', PyStr ''center''), (''spacing'', PyStr ''7'')]]
                     [(''height'', PyStr ''100vh'')]]
                  [(''publishable_key'', PyStr ''pk_old'')])
   \<and> fst (install_signin_page
              (snd (install_signin_page
                 \<lparr>pages = [''index'' \<mapsto> Component Center [] []]\<rparr>
                 (PyStr ''pk_old'') ''/signin'' [(''appearance'', PyObj (1::nat))]))
              (PyStr ''pk_new'') ''/signin'' [(''appearance'', PyObj 2)]) = None
   \<and> pages (snd (install_signin_page
              (snd (install_signin_page
                 \<lparr>pages = [''index'' \<mapsto> Component Center [] []]\<rparr>
                 (PyStr ''pk_old'') ''/signin'' [(''appearance'', PyObj (1::nat))]))
              (PyStr ''pk_new'') ''/signin'' [(''appearance'', PyObj 2)]))
         ''signin/[[...signin]]/index''
        = Some (Component ClerkProvider
                  [Component Center
                     [Component VStack
                        [Component SignIn [] [(''path'', PyStr ''/signin''), (''appearance'', PyObj 2)]]
                        [(''align'', PyStr ''center''), (''spacing'', PyStr ''7'')]]
                     [(''height'', PyStr ''100vh'')]]
                  [(''publishable_key'', PyStr ''pk_new'')])
   \<and> pages (snd (install_signin_page
              (snd (install_signin_page
                 \<lparr>pages = [''index'' \<mapsto> Component Center [] []]\<rparr>
                 (PyStr ''pk_old'') ''/signin'' [(''appearance'', PyObj (1::nat))]))
              (PyStr ''pk_new'') ''/signin'' [(''appearance'', PyObj 2)]))
         ''index'' = Some (Component Center [] [])"
proof -
  let ?app = "\<lparr>pages = [''index'' \<mapsto> Component Center [] []]\<rparr> :: nat app"
  let ?old = "[(''appearance'', PyObj (1::nat))]"
  let ?new = "[(''appearance'', PyObj (2::nat))]"
  have h: "startswith ''/signin'' ''/'' \<and> ''path'' \<notin> keys ?old \<and> ''path'' \<notin> keys ?new"
    by (simp add: startswith_def keys_def)
  note t = C6_second_call_overwrites
    [of "''/signin''" ?old ?new ?app "PyStr ''pk_old''" "PyStr ''pk_new''", THEN mp, OF h]
  have k: "drop 1 ''/signin'' @ ''/[[...signin]]/index'' = ''signin/[[...signin]]/index''"
    by simp
  have a: "pages (snd (install_signin_page ?app (PyStr ''pk_old'') ''/signin'' ?old))
             ''signin/[[...signin]]/index''
        = Some (Component ClerkProvider
                  [Component Center
                     [Component VStack
                        [Component SignIn [] [(''path'', PyStr ''/signin''), (''appearance'', PyObj 1)]]
                        [(''align'', PyStr ''center''), (''spacing'', PyStr ''7'')]]
                     [(''height'', PyStr ''100vh'')]]
                  [(''publishable_key'', PyStr ''pk_old'')])"
    using t unfolding k by (elim conjE)
  have b: "fst (install_signin_page (snd (install_signin_page ?app (PyStr ''pk_old'') ''/signin'' ?old))
              (PyStr ''pk_new'') ''/signin'' ?new) = None"
    using t by (elim conjE)
  have c: "pages (snd (install_signin_page
              (snd (install_signin_page ?app (PyStr ''pk_old'') ''/signin'' ?old))
              (PyStr ''pk_new'') ''/signin'' ?new)) ''signin/[[...signin]]/index''
        = Some (Component ClerkProvider
                  [Component Center
                     [Component VStack
                        [Component SignIn [] [(''path'', PyStr ''/signin''), (''appearance'', PyObj 2)]]
                        [(''align'', PyStr ''center''), (''spacing'', PyStr ''7'')]]
                     [(''height'', PyStr ''100vh'')]]
                  [(''publishable_key'', PyStr ''pk_new'')])"
    using t unfolding k by (elim conjE)
  have w: "pages (snd (install_signin_page
              (snd (install_signin_page ?app (PyStr ''pk_old'') ''/signin'' ?old))
              (PyStr ''pk_new'') ''/signin'' ?new))
        = (pages ?app)(drop 1 ''/signin'' @ ''/[[...signin]]/index'' \<mapsto>
            Component ClerkProvider
              [Component Center
                 [Component VStack
                    [Component SignIn [] ((''path'', PyStr ''/signin'') # ?new)]
                    [(''align'', PyStr ''center''), (''spacing'', PyStr ''7'')]]
                 [(''height'', PyStr ''100vh'')]]
              [(''publishable_key'', PyStr ''pk_new'')])"
    using t by (elim conjE)
  have d: "pages (snd (install_signin_page
              (snd (install_signin_page ?app (PyStr ''pk_old'') ''/signin'' ?old))
              (PyStr ''pk_new'') ''/signin'' ?new)) ''index'' = Some (Component Center [] [])"
    unfolding w by simp
  from h a b c d show ?thesis
    by (intro conjI) (elim conjE, assumption)+
qed



text \<open>
  C8. For a route \<open>R\<close> that starts with \<^verbatim>\<open>/\<close>, \<^verbatim>\<open>install_signin_page\<close> returns normally and
  the page under its key is the provider wrapper with the credential as
  \<^verbatim>\<open>publishable_key\<close>, around one centering container of height \<^verbatim>\<open>100vh\<close>, around one
  vertical stack with center alignment and spacing \<^verbatim>\<open>7\<close>, around one sign-in form whose
  keyword arguments are the route as \<^verbatim>\<open>path\<close> and the forwarded options. The forwarded
  options are any without a key \<^verbatim>\<open>path\<close>, the default (no option) among them.
\<close>

theorem C8_signin_page_tree:
  "startswith R ''/'' \<and> ''path'' \<notin> keys props \<longrightarrow>
     fst (install_signin_page app k R props) = None
   \<and> pages (snd (install_signin_page app k R props)) (drop 1 R @ ''/[[...signin]]/index'')
        = Some (Component ClerkProvider
                  [Component Center
                     [Component VStack
                        [Component SignIn [] ((''path'', PyStr R) # props)]
                        [(''align'', PyStr ''center''), (''spacing'', PyStr ''7'')]]
                     [(''height'', PyStr ''100vh'')]]
                  [(''publishable_key'', k)])"
  by (simp add: signin_ok)

theorem C8_signin_page_tree_witness:
  "startswith ''/login'' ''/'' \<and> ''path'' \<notin> keys [(''appearance'', PyObj (1::nat))]
   \<and> pages (snd (install_signin_page (fresh_app :: nat app) (PyStr ''pk_test'') ''/login''
              [(''appearance'', PyObj 1)])) ''login/[[...signin]]/index''
        = Some (Component ClerkProvider
                  [Component Center
                     [Component VStack
                        [Component SignIn [] [(''path'', PyStr ''/login''), (''appearance'', PyObj 1)]]
                        [(''align'', PyStr ''center''), (''spacing'', PyStr ''7'')]]
                     [(''height'', PyStr ''100vh'')]]
                  [(''publishable_key'', PyStr ''pk_test'')])"
  using C8_signin_page_tree
    [of "''/login''" "[(''appearance'', PyObj (1::nat))]" "fresh_app :: nat app" "PyStr ''pk_test''"]
  by (simp add: startswith_def keys_def)

text \<open>
  C9. For a route \<open>R\<close> that starts with \<^verbatim>\<open>/\<close>, \<^verbatim>\<open>install_pages\<close> with \<open>R\<close> as sign-in route
  and as sign-up route returns normally; the two derived keys differ; the entry under
  the sign-in key is the one the sign-in installer stored, its form a sign-in form, and
  the entry under the sign-up key has a sign-up form; the route table has gained these
  two keys and no other. The forwarded options are any that can be forwarded (no key
  \<^verbatim>\<open>publishable_key\<close>, \<^verbatim>\<open>route\<close> or \<^verbatim>\<open>path\<close>), the default (no option) among them.
\<close>

theorem C9_same_route_two_entries:
  "startswith R ''/'' \<and> ''publishable_key'' \<notin> keys props \<and> ''route'' \<notin> keys props
     \<and> ''path'' \<notin> keys props \<longrightarrow>
     fst (install_pages app k R R props) = None
   \<and> drop 1 R @ ''/[[...signin]]/index'' \<noteq> drop 1 R @ ''/[[...signup]]/index''
   \<and> pages (snd (install_pages app k R R props)) (drop 1 R @ ''/[[...signin]]/index'')
        = pages (snd (install_signin_page app k R props)) (drop 1 R @ ''/[[...signin]]/index'')
   \<and> map_option constructor
        (Option.bind (pages (snd (install_pages app k R R props)) (drop 1 R @ ''/[[...signin]]/index''))
           form_of) = Some SignIn
   \<and> map_option constructor
        (Option.bind (pages (snd (install_pages app k R R props)) (drop 1 R @ ''/[[...signup]]/index''))
           form_of) = Some SignUp
   \<and> dom (pages (snd (install_pages app k R R props)))
        = dom (pages app) \<union> {drop 1 R @ ''/[[...signin]]/index'', drop 1 R @ ''/[[...signup]]/index''}"
  by (auto simp add: install_pages_seq signin_ok signup_ok form_of_def only_child_def)

theorem C9_same_route_two_entries_witness:
  "startswith ''/auth'' ''/'' \<and> ''publishable_key'' \<notin> keys ([] :: unit kwargs)
   \<and> ''route'' \<notin> keys ([] :: unit kwargs) \<and> ''path'' \<notin> keys ([] :: unit kwargs)
   \<and> fst (install_pages (fresh_app :: unit app) PyNone ''/auth'' ''/auth'' []) = None
   \<and> dom (pages (snd (install_pages (fresh_app :: unit app) PyNone ''/auth'' ''/auth'' [])))
        = {''auth/[[...signin]]/index'', ''auth/[[...signup]]/index''}
   \<and> map_option constructor
        (Option.bind (pages (snd (install_pages (fresh_app :: unit app) PyNone ''/auth'' ''/auth'' []))
           ''auth/[[...signin]]/index'') form_of) = Some SignIn"
proof -
  have h: "startswith ''/auth'' ''/'' \<and> ''publishable_key'' \<notin> keys ([] :: unit kwargs)
     \<and> ''route'' \<notin> keys ([] :: unit kwargs) \<and> ''path'' \<notin> keys ([] :: unit kwargs)"
    by (simp add: startswith_def keys_def)
  let ?r = "install_pages (fresh_app :: unit app) PyNone ''/auth'' ''/auth'' []"
  note t = C9_same_route_two_entries
    [of "''/auth''" "[] :: unit kwargs" "fresh_app :: unit app" PyNone, THEN mp, OF h]
  have k: "drop 1 ''/auth'' @ ''/[[...signin]]/index'' = ''auth/[[...signin]]/index''"
    "drop 1 ''/auth'' @ ''/[[...signup]]/index'' = ''auth/[[...signup]]/index''"
    by simp_all
  have e: "fst ?r = None"
    using t by (elim conjE)
  have f: "map_option constructor
        (Option.bind (pages (snd ?r) ''auth/[[...signin]]/index'') form_of) = Some SignIn"
    using t unfolding k by (elim conjE)
  have d: "dom (pages (snd ?r)) = dom (pages (fresh_app :: unit app))
          \<union> {''auth/[[...signin]]/index'', ''auth/[[...signup]]/index''}"
    using t unfolding k by (elim conjE)
  have d0: "dom (pages (fresh_app :: unit app)) = {}"
    by (simp add: fresh_app_def)
  have d': "dom (pages (snd ?r)) = {''auth/[[...signin]]/index'', ''auth/[[...signup]]/index''}"
    unfolding d d0 by simp
  from h e d' f show ?thesis
    by (intro conjI) (elim conjE, assumption)+
qed

end
